theory Spec2Isabelle
  imports Main
begin

section \<open>flint.sclient: running a command inside a singularity container\<close>

text \<open>
  A shallow embedding of \<^verbatim>\<open>run_singularity_command\<close> of
  \<^verbatim>\<open>src/flint/sclient.py\<close>. The function has no return value; what it does is
  observable through the exception it raises (or not), the messages it hands to the logger,
  the one call it makes to \<^verbatim>\<open>sclient.execute\<close> and the calls of the caller's
  callback. The model returns the outcome together with the list of those events, in the
  order in which they happen.
\<close>

subsection \<open>Python strings\<close>

text \<open>
  \<^verbatim>\<open>str.isspace\<close> on one character, for the code points below 256 that a
  \<^typ>\<open>char\<close> holds: tab, line feed, vertical tab, form feed, carriage return
  (9 to 13), the four separators 28 to 31, the space (32), NEL (133) and the no-break
  space (160).
\<close>

definition isspace :: "char \<Rightarrow> bool" where
  "isspace c =
     (let n = (of_char c :: nat)
      in (9 \<le> n \<and> n \<le> 13) \<or> (28 \<le> n \<and> n \<le> 32) \<or> n = 133 \<or> n = 160)"

text \<open>
  \<^verbatim>\<open>str.split()\<close> with no argument: the maximal runs of non-whitespace characters,
  left to right. The second argument is the token being read.
\<close>

fun split_from :: "string \<Rightarrow> string \<Rightarrow> string list" where
  "split_from [] cur = (if cur = [] then [] else [cur])"
| "split_from (c # cs) cur =
     (if isspace c
      then (if cur = [] then split_from cs [] else cur # split_from cs [])
      else split_from cs (cur @ [c]))"

definition split :: "string \<Rightarrow> string list" where
  "split s = split_from s []"

text \<open>\<^verbatim>\<open>str.rstrip()\<close> with no argument removes all trailing whitespace.\<close>

definition rstrip :: "string \<Rightarrow> string" where
  "rstrip s = rev (dropWhile isspace (rev s))"

text \<open>How an f-string renders an optional text: \<^verbatim>\<open>None\<close> prints as its name.\<close>

fun str_opt :: "string option \<Rightarrow> string" where
  "str_opt None = ''None''"
| "str_opt (Some s) = s"

subsection \<open>Exceptions, events and the environment\<close>

type_synonym path = string

text \<open>
  \<^verbatim>\<open>subprocess.CalledProcessError\<close> has the attributes \<^verbatim>\<open>returncode\<close>,
  \<^verbatim>\<open>cmd\<close> (a string or an argument list), \<^verbatim>\<open>stdout\<close> and \<^verbatim>\<open>stderr\<close>
  (each a text or \<^verbatim>\<open>None\<close>).
\<close>

datatype cmdline = CmdStr string | CmdArgv "string list"

datatype called_process_error =
  CPE (returncode: int) (cmd: cmdline) (stdout: "string option") (stderr: "string option")

text \<open>
  The exceptions that can leave the function. \<open>OtherException\<close> stands for every class
  that the \<^verbatim>\<open>except CalledProcessError\<close> clause does not catch.
\<close>

datatype exn =
  FileNotFoundError string
| UnboundLocalError string
| CalledProcessError called_process_error
| OtherException string

datatype level = DEBUG | INFO | ERROR

text \<open>
  What an observer of one call sees: a message handed to the logger, the call of
  \<^verbatim>\<open>sclient.execute\<close> with its image, argument vector and bind list, and a call of
  the callback with a line.
\<close>

datatype event =
  is_Log: Log level string
| is_Execute: Execute string "string list" "string list option"
| is_Callback: Callback string

fun messages_at :: "level \<Rightarrow> event list \<Rightarrow> string list" where
  "messages_at lv [] = []"
| "messages_at lv (Log l m # t) = (if l = lv then m # messages_at lv t else messages_at lv t)"
| "messages_at lv (Execute i a b # t) = messages_at lv t"
| "messages_at lv (Callback s # t) = messages_at lv t"

text \<open>
  What the function reads from outside: the file system (\<^verbatim>\<open>Path.exists\<close> and the
  canonical text of \<^verbatim>\<open>Path.absolute().resolve()\<close>), \<^verbatim>\<open>gethostname()\<close>, the
  \<^verbatim>\<open>repr\<close> of an exception, and the container runtime. A call of
  \<^verbatim>\<open>sclient.execute(image, command, bind, stream=True)\<close> either raises, or returns a
  generator that yields lines and then ends normally or raises.
\<close>

record env =
  fs_exists :: "path \<Rightarrow> bool"
  fs_resolve :: "path \<Rightarrow> string"
  gethostname :: string
  py_repr :: "called_process_error \<Rightarrow> string"
  sclient_execute ::
    "string \<Rightarrow> string list \<Rightarrow> string list option \<Rightarrow> exn + (string list \<times> exn option)"

text \<open>
  \<^verbatim>\<open>bind_dirs: Optional[Union[Path, Collection[Path]]]\<close>, and a local variable that
  is read before any assignment raises \<^verbatim>\<open>UnboundLocalError\<close>.
\<close>

datatype bind_dirs = NoBinds | OnePath path | Paths "path list"

datatype 'a local_var = Unbound | Bound 'a

text \<open>
  The callback is any callable object. Two things about it matter to the function: its
  truth value, which line 67 tests (an object is true unless its class has a
  \<^verbatim>\<open>__bool__\<close> or \<^verbatim>\<open>__len__\<close> that says otherwise), and what a call with a line
  does: \<open>None\<close> when the call returns, \<open>Some x\<close> when it raises \<open>x\<close>.
\<close>

record callback =
  truth_value :: bool
  call :: "string \<Rightarrow> exn option"

type_synonym outcome = "(exn + unit) \<times> event list"

subsection \<open>The function\<close>

text \<open>\<^verbatim>\<open>if bind_dirs:\<close> a path is always true, a collection when it is not empty.\<close>

fun truthy :: "bind_dirs \<Rightarrow> bool" where
  "truthy NoBinds = False"
| "truthy (OnePath p) = True"
| "truthy (Paths ps) = (ps \<noteq> [])"

text \<open>Lines 41 and 42: a bare path becomes the one-element list.\<close>

fun as_collection :: "bind_dirs \<Rightarrow> path list" where
  "as_collection NoBinds = []"
| "as_collection (OnePath p) = [p]"
| "as_collection (Paths ps) = ps"

text \<open>
  Lines 39 to 52. \<^verbatim>\<open>bind_str\<close> is set to \<^verbatim>\<open>None\<close> and never assigned again;
  \<^verbatim>\<open>bind\<close> is assigned only inside the \<^verbatim>\<open>if\<close>. \<^verbatim>\<open>list(set(...))\<close> lists every
  distinct text once, in an order Python does not fix; \<^const>\<open>remdups\<close> is one such order.
  The property of the bind list itself (C3) is stated through \<^const>\<open>set\<close> and
  \<^const>\<open>distinct\<close> only; elsewhere the list appears as the argument that is handed on.
\<close>

definition construct_bind ::
  "env \<Rightarrow> bind_dirs \<Rightarrow> string list option local_var \<times> event list" where
  "construct_bind e bd =
     (let bind_str = None
      in if truthy bd
         then (let ps = as_collection bd;
                   bind = (if length ps > 0
                           then Some (remdups (map (fs_resolve e) ps))
                           else None)
               in (Bound bind,
                   [Log DEBUG (''Constructed singularity bindings: '' @ str_opt bind_str)]))
         else (Unbound, []))"

text \<open>\<^verbatim>\<open>image.resolve(strict=True).as_posix()\<close> raises when the path is not there.\<close>

definition resolve_strict :: "env \<Rightarrow> path \<Rightarrow> exn + string" where
  "resolve_strict e p =
     (if fs_exists e p then Inr (fs_resolve e p) else Inl (FileNotFoundError p))"

text \<open>
  \<^verbatim>\<open>if stream_callback_func:\<close> \<^verbatim>\<open>None\<close> is false, a callable has its own truth
  value.
\<close>

fun callback_true :: "callback option \<Rightarrow> bool" where
  "callback_true None = False"
| "callback_true (Some f) = truth_value f"

text \<open>\<^verbatim>\<open>stream_callback_func(line)\<close> calling \<^verbatim>\<open>None\<close> would be a type error.\<close>

fun invoke :: "callback option \<Rightarrow> string \<Rightarrow> exn option" where
  "invoke None line = Some (OtherException ''TypeError'')"
| "invoke (Some f) line = call f line"

text \<open>
  Lines 65 to 68, the loop over the generator: log the stripped line, then test the
  callback and, if it is true, call it with the line as it came. An exception of the call
  ends the loop. \<open>fin\<close> is how the generator ends.
\<close>

fun consume :: "callback option \<Rightarrow> string list \<Rightarrow> exn option \<Rightarrow> outcome" where
  "consume cb [] fin = ((case fin of None \<Rightarrow> Inr () | Some x \<Rightarrow> Inl x), [])"
| "consume cb (line # rest) fin =
     (if callback_true cb
      then (case invoke cb line of
              Some x \<Rightarrow> (Inl x, [Log INFO (rstrip line), Callback line])
            | None \<Rightarrow>
                (case consume cb rest fin of
                   (r, t) \<Rightarrow> (r, Log INFO (rstrip line) # Callback line # t)))
      else (case consume cb rest fin of (r, t) \<Rightarrow> (r, Log INFO (rstrip line) # t)))"

text \<open>
  Lines 55 to 68, the body of the \<^verbatim>\<open>try\<close>. Python evaluates the arguments of the call
  from left to right, so \<^verbatim>\<open>bind\<close> is read after the image is resolved and the command
  is split, and before \<^verbatim>\<open>sclient.execute\<close> is entered.
\<close>

definition try_body ::
  "env \<Rightarrow> path \<Rightarrow> string \<Rightarrow> string list option local_var \<Rightarrow> callback option \<Rightarrow> outcome" where
  "try_body e image_path command bind cb =
     (case resolve_strict e image_path of
        Inl x \<Rightarrow> (Inl x, [])
      | Inr img \<Rightarrow>
          (let argv = split command
           in case bind of
                Unbound \<Rightarrow> (Inl (UnboundLocalError ''bind''), [])
              | Bound b \<Rightarrow>
                  (case sclient_execute e img argv b of
                     Inl x \<Rightarrow> (Inl x, [Execute img argv b])
                   | Inr (lines, fin) \<Rightarrow>
                       (case consume cb lines fin of
                          (r, t) \<Rightarrow> (r, Execute img argv b # t)))))"

text \<open>Lines 69 to 75: four messages at error level, then the same exception again.\<close>

definition failure_log :: "env \<Rightarrow> string \<Rightarrow> called_process_error \<Rightarrow> event list" where
  "failure_log e command x =
     [Log ERROR (''Failed to run command: '' @ command),
      Log ERROR (''Stdout: '' @ str_opt (stdout x)),
      Log ERROR (''Stderr: '' @ str_opt (stderr x)),
      Log ERROR (''e='' @ py_repr e x)]"

fun except_clause :: "env \<Rightarrow> string \<Rightarrow> outcome \<Rightarrow> outcome" where
  "except_clause e command (Inl (CalledProcessError x), t) =
     (Inl (CalledProcessError x), t @ failure_log e command x)"
| "except_clause e command (r, t) = (r, t)"

definition start_log :: "env \<Rightarrow> path \<Rightarrow> string \<Rightarrow> event list" where
  "start_log e image_path command =
     [Log INFO (''Running '' @ command @ '' in '' @ image_path),
      Log INFO (''Attempting to run singularity command on '' @ gethostname e)]"

definition run_singularity_command ::
  "env \<Rightarrow> path \<Rightarrow> string \<Rightarrow> bind_dirs \<Rightarrow> callback option \<Rightarrow> outcome" where
  "run_singularity_command e image_path command bd cb =
     (if \<not> fs_exists e image_path
      then (Inl (FileNotFoundError
                  (''The singularity container '' @ image_path @ '' was not found. '')), [])
      else (case construct_bind e bd of
              (bind, t1) \<Rightarrow>
                (case except_clause e command (try_body e image_path command bind cb) of
                   (r, t2) \<Rightarrow> (r, start_log e image_path command @ t1 @ t2))))"

text \<open>
  The lines that the child process emits during one call: those the generator yields, when
  the call gets as far as the runtime and the runtime hands a generator back.
\<close>

definition emitted_lines :: "env \<Rightarrow> path \<Rightarrow> string \<Rightarrow> bind_dirs \<Rightarrow> string list" where
  "emitted_lines e p c bd =
     (if fs_exists e p \<and> truthy bd
      then (case sclient_execute e (fs_resolve e p) (split c)
                   (Some (remdups (map (fs_resolve e) (as_collection bd)))) of
              Inl x \<Rightarrow> []
            | Inr (lines, fin) \<Rightarrow> lines)
      else [])"

subsection \<open>A small environment to run the function in\<close>

text \<open>
  Only the image \<^verbatim>\<open>test.sif\<close> exists; \<^verbatim>\<open>/link\<close> is a symbolic link to
  \<^verbatim>\<open>/data\<close>. In the container \<^verbatim>\<open>echo hello\<close> prints one line,
  \<^verbatim>\<open>cat notes.txt\<close> prints two, the first with blanks before its line feed, and
  \<^verbatim>\<open>false\<close> prints nothing and exits with status 1, for which the runtime raises
  \<^verbatim>\<open>CalledProcessError(1, cmd)\<close> with the command line it ran and no captured text.
\<close>

definition demo_resolve :: "path \<Rightarrow> string" where
  "demo_resolve p =
     (if p = ''test.sif'' then ''/work/test.sif''
      else if p = ''/link'' then ''/data''
      else p)"

definition demo_execute ::
  "string \<Rightarrow> string list \<Rightarrow> string list option \<Rightarrow> exn + (string list \<times> exn option)" where
  "demo_execute img argv b =
     (if argv = [''echo'', ''hello''] then Inr ([''hello'' @ [CHR 0x0A]], None)
      else if argv = [''cat'', ''notes.txt'']
        then Inr ([''first  '' @ [CHR 0x0A], ''second'' @ [CHR 0x0A]], None)
      else if argv = [''false'']
        then Inr ([], Some (CalledProcessError
               (CPE 1 (CmdArgv ([''singularity'', ''exec''] @
                        (case b of None \<Rightarrow> [] | Some ds \<Rightarrow> concat (map (\<lambda>d. [''--bind'', d]) ds)) @
                        [img] @ argv)) None None)))
      else Inr ([], None))"

definition demo_env :: env where
  "demo_env =
     \<lparr> fs_exists = (\<lambda>p. p = ''test.sif''),
       fs_resolve = demo_resolve,
       gethostname = ''node1'',
       py_repr = (\<lambda>x. ''CalledProcessError''),
       sclient_execute = demo_execute \<rparr>"

text \<open>
  Three callbacks: one that returns, one that raises on every line, and a callable that is
  false (an empty collection with a \<^verbatim>\<open>__call__\<close>, say) and would raise if called.
\<close>

definition quiet_callback :: callback where
  "quiet_callback = \<lparr> truth_value = True, call = (\<lambda>line. None) \<rparr>"

definition raising_callback :: callback where
  "raising_callback =
     \<lparr> truth_value = True, call = (\<lambda>line. Some (OtherException ''ValueError'')) \<rparr>"

definition falsy_callback :: callback where
  "falsy_callback =
     \<lparr> truth_value = False, call = (\<lambda>line. Some (OtherException ''ValueError'')) \<rparr>"

section \<open>Auxiliary facts\<close>

subsection \<open>Splitting\<close>



lemma split_from_blank: "\<forall>ch\<in>set s. isspace ch \<Longrightarrow> split_from s [] = []"
  by (induction s) simp_all

lemma split_from_token:
  "\<forall>ch\<in>set t. \<not> isspace ch \<Longrightarrow> split_from (t @ rest) cur = split_from rest (cur @ t)"
  by (induction t arbitrary: cur) simp_all

text \<open>
  Splitting undoes joining: tokens without whitespace, each followed by one whitespace
  character, come back as they were.
\<close>

lemma split_join:
  "\<forall>t\<in>set ts. t \<noteq> [] \<and> (\<forall>ch\<in>set t. \<not> isspace ch) \<Longrightarrow> isspace sp \<Longrightarrow>
   split (concat (map (\<lambda>t. t @ [sp]) ts)) = ts"
  unfolding split_def
  by (induction ts) (simp_all add: split_from_token)

subsection \<open>The bind list and the handler\<close>

lemma truthy_collection: "truthy bd \<Longrightarrow> as_collection bd \<noteq> []"
  by (cases bd) simp_all

lemma construct_bind_truthy:
  "truthy bd \<Longrightarrow>
   construct_bind e bd =
     (Bound (Some (remdups (map (fs_resolve e) (as_collection bd)))),
      [Log DEBUG ''Constructed singularity bindings: None''])"
  by (simp add: construct_bind_def truthy_collection)

lemma construct_bind_falsy: "\<not> truthy bd \<Longrightarrow> construct_bind e bd = (Unbound, [])"
  by (simp add: construct_bind_def)

lemma except_clause_fst: "fst (except_clause e c out) = fst out"
  by (induction e c out rule: except_clause.induct) simp_all

lemma except_clause_snd:
  "snd (except_clause e c out) =
     snd out @ (case fst out of Inl (CalledProcessError x) \<Rightarrow> failure_log e c x | _ \<Rightarrow> [])"
  by (induction e c out rule: except_clause.induct) simp_all

subsection \<open>The loop\<close>

lemma consume_no_callback:
  "\<not> callback_true cb \<Longrightarrow>
   consume cb ls fin =
     ((case fin of None \<Rightarrow> Inr () | Some x \<Rightarrow> Inl x), map (\<lambda>l. Log INFO (rstrip l)) ls)"
  by (induction ls) simp_all

lemma consume_callback_trace:
  "callback_true cb \<Longrightarrow>
   snd (consume cb ls fin) =
     concat (map (\<lambda>l. [Log INFO (rstrip l), Callback l])
       (takeWhile (\<lambda>l. invoke cb l = None) ls @ take 1 (dropWhile (\<lambda>l. invoke cb l = None) ls)))"
  by (induction ls) (auto split: option.splits prod.splits)

lemma consume_callback_returns:
  "callback_true cb \<Longrightarrow> \<forall>l\<in>set ls. invoke cb l = None \<Longrightarrow>
   consume cb ls fin =
     ((case fin of None \<Rightarrow> Inr () | Some x \<Rightarrow> Inl x),
      concat (map (\<lambda>l. [Log INFO (rstrip l), Callback l]) ls))"
  by (induction ls) simp_all

lemma consume_no_execute: "filter is_Execute (snd (consume cb ls fin)) = []"
  by (induction ls) (auto split: option.splits prod.splits)

subsection \<open>The two ways through the function when the image exists\<close>

lemma run_unbound:
  "fs_exists e p \<Longrightarrow> \<not> truthy bd \<Longrightarrow>
   run_singularity_command e p c bd cb = (Inl (UnboundLocalError ''bind''), start_log e p c)"
  by (simp add: run_singularity_command_def construct_bind_falsy try_body_def resolve_strict_def)

lemma try_body_bound:
  "fs_exists e p \<Longrightarrow>
   try_body e p c (Bound b) cb =
     (case sclient_execute e (fs_resolve e p) (split c) b of
        Inl x \<Rightarrow> (Inl x, [Execute (fs_resolve e p) (split c) b])
      | Inr (lines, fin) \<Rightarrow>
          (fst (consume cb lines fin),
           Execute (fs_resolve e p) (split c) b # snd (consume cb lines fin)))"
  by (simp add: try_body_def resolve_strict_def split: sum.splits prod.splits)

lemma run_bound:
  "fs_exists e p \<Longrightarrow> truthy bd \<Longrightarrow>
   run_singularity_command e p c bd cb =
     (let out = try_body e p c (Bound (Some (remdups (map (fs_resolve e) (as_collection bd))))) cb
      in (fst out,
          start_log e p c @ Log DEBUG ''Constructed singularity bindings: None'' # snd out @
          (case fst out of Inl (CalledProcessError x) \<Rightarrow> failure_log e c x | _ \<Rightarrow> [])))"
  by (simp add: run_singularity_command_def construct_bind_truthy Let_def
        except_clause_fst except_clause_snd split: prod.splits)
     (metis except_clause_fst except_clause_snd fst_conv snd_conv)

lemma run_reached:
  "fs_exists e p \<Longrightarrow> truthy bd \<Longrightarrow>
   sclient_execute e (fs_resolve e p) (split c)
     (Some (remdups (map (fs_resolve e) (as_collection bd)))) = Inr (lines, fin) \<Longrightarrow>
   run_singularity_command e p c bd cb =
     (fst (consume cb lines fin),
      start_log e p c @
      [Log DEBUG ''Constructed singularity bindings: None'',
       Execute (fs_resolve e p) (split c)
         (Some (remdups (map (fs_resolve e) (as_collection bd))))] @
      snd (consume cb lines fin) @
      (case fst (consume cb lines fin) of
         Inl (CalledProcessError x) \<Rightarrow> failure_log e c x | _ \<Rightarrow> []))"
  by (simp add: run_bound try_body_bound Let_def)

lemma run_launch_raises:
  "fs_exists e p \<Longrightarrow> truthy bd \<Longrightarrow>
   sclient_execute e (fs_resolve e p) (split c)
     (Some (remdups (map (fs_resolve e) (as_collection bd)))) = Inl x0 \<Longrightarrow>
   run_singularity_command e p c bd cb =
     (Inl x0,
      start_log e p c @
      [Log DEBUG ''Constructed singularity bindings: None'',
       Execute (fs_resolve e p) (split c)
         (Some (remdups (map (fs_resolve e) (as_collection bd))))] @
      (case x0 of CalledProcessError x \<Rightarrow> failure_log e c x | _ \<Rightarrow> []))"
  by (simp add: run_bound try_body_bound Let_def)

lemma run_not_reached:
  "\<not> (fs_exists e p \<and> truthy bd) \<Longrightarrow>
   run_singularity_command e p c bd cb = run_singularity_command e p c bd None"
proof (cases "fs_exists e p")
  case True
  moreover assume "\<not> (fs_exists e p \<and> truthy bd)"
  ultimately show ?thesis by (simp add: run_unbound)
next
  case False
  then show ?thesis by (simp add: run_singularity_command_def)
qed

lemma run_not_reached_trace:
  "\<not> (fs_exists e p \<and> truthy bd) \<Longrightarrow>
   snd (run_singularity_command e p c bd cb) = [] \<or>
   snd (run_singularity_command e p c bd cb) = start_log e p c"
proof (cases "fs_exists e p")
  case True
  moreover assume "\<not> (fs_exists e p \<and> truthy bd)"
  ultimately show ?thesis by (simp add: run_unbound)
next
  case False
  then show ?thesis by (simp add: run_singularity_command_def)
qed

subsection \<open>Which events a trace holds\<close>

lemma start_log_no_execute: "filter is_Execute (start_log e p c) = []"
  by (simp add: start_log_def)

lemma failure_log_no_execute: "filter is_Execute (failure_log e c x) = []"
  by (simp add: failure_log_def)

lemma try_body_executes:
  "fs_exists e p \<Longrightarrow>
   filter is_Execute (snd (try_body e p c (Bound b) cb)) =
     [Execute (fs_resolve e p) (split c) b]"
  by (simp add: try_body_bound consume_no_execute split: sum.splits prod.splits)

lemma run_executes_once:
  "fs_exists e p \<Longrightarrow> truthy bd \<Longrightarrow>
   filter is_Execute (snd (run_singularity_command e p c bd cb)) =
     [Execute (fs_resolve e p) (split c)
        (Some (remdups (map (fs_resolve e) (as_collection bd))))]"
  by (simp add: run_bound Let_def start_log_no_execute try_body_executes
        failure_log_no_execute split: sum.splits exn.splits)


lemma messages_at_append: "messages_at lv (s @ t) = messages_at lv s @ messages_at lv t"
  by (induction lv s rule: messages_at.induct) simp_all

lemma consume_messages_debug: "messages_at DEBUG (snd (consume cb ls fin)) = []"
  by (induction ls) (auto split: option.splits prod.splits)

lemma consume_messages_debug_pair:
  "consume cb ls fin = (r, t) \<Longrightarrow> messages_at DEBUG t = []"
  using consume_messages_debug [of cb ls fin] by simp

lemma try_body_messages_debug: "messages_at DEBUG (snd (try_body e p c b cb)) = []"
  by (auto simp: try_body_def Let_def consume_messages_debug_pair
        split: sum.splits prod.splits local_var.splits)

lemma consume_messages_error: "messages_at ERROR (snd (consume cb ls fin)) = []"
  by (induction ls) (auto split: option.splits prod.splits)

lemma consume_returns:
  "callback_true cb \<longrightarrow> (\<forall>l\<in>set ls. invoke cb l = None) \<Longrightarrow>
   fst (consume cb ls fin) = (case fin of None \<Rightarrow> Inr () | Some x \<Rightarrow> Inl x)"
  by (cases "callback_true cb") (simp_all add: consume_no_callback consume_callback_returns)

lemma consume_trace:
  "snd (consume cb ls fin) =
     concat (map (\<lambda>l. Log INFO (rstrip l) # (if callback_true cb then [Callback l] else []))
       (if callback_true cb
        then takeWhile (\<lambda>l. invoke cb l = None) ls @
             take 1 (dropWhile (\<lambda>l. invoke cb l = None) ls)
        else ls))"
proof (cases "callback_true cb")
  case True
  then show ?thesis by (simp add: consume_callback_trace)
next
  case False
  have "concat (map (\<lambda>l. [Log INFO (rstrip l)]) ls) = map (\<lambda>l. Log INFO (rstrip l)) ls"
    by (induction ls) simp_all
  with False show ?thesis by (simp add: consume_no_callback)
qed

lemma filter_callback_pairs:
  "filter is_Callback (concat (map (\<lambda>l. [Log INFO (g l), Callback l]) ls)) = map Callback ls"
  by (induction ls) simp_all

lemma filter_not_callback_pairs:
  "filter (\<lambda>ev. \<not> is_Callback ev) (concat (map (\<lambda>l. [Log INFO (g l), Callback l]) ls)) =
     map (\<lambda>l. Log INFO (g l)) ls"
  by (induction ls) simp_all

lemma failure_log_no_callback:
  "filter is_Callback (failure_log e c x) = []"
  "filter (\<lambda>ev. \<not> is_Callback ev) (failure_log e c x) = failure_log e c x"
  by (simp_all add: failure_log_def)

lemma start_log_no_callback:
  "filter is_Callback (start_log e p c) = []"
  "filter (\<lambda>ev. \<not> is_Callback ev) (start_log e p c) = start_log e p c"
  by (simp_all add: start_log_def)

text \<open>
  What \<^const>\<open>rstrip\<close> leaves: the line without its longest whitespace suffix.
\<close>

lemma rstrip_spec:
  "\<exists>ws. l = rstrip l @ ws \<and> list_all isspace ws \<and> (rstrip l = [] \<or> \<not> isspace (last (rstrip l)))"
proof -
  have "rev l = takeWhile isspace (rev l) @ dropWhile isspace (rev l)" by simp
  then have "l = rev (dropWhile isspace (rev l)) @ rev (takeWhile isspace (rev l))"
    by (metis rev_append rev_rev_ident)
  moreover have "list_all isspace (rev (takeWhile isspace (rev l)))"
    by (simp add: list_all_iff) (metis set_takeWhileD)
  moreover have "dropWhile isspace (rev l) = [] \<or> \<not> isspace (hd (dropWhile isspace (rev l)))"
    using hd_dropWhile by blast
  then have "rstrip l = [] \<or> \<not> isspace (last (rstrip l))"
    by (auto simp: rstrip_def last_rev)
  ultimately show ?thesis unfolding rstrip_def by blast
qed

lemma run_trace:
  "fs_exists e p \<Longrightarrow> truthy bd \<Longrightarrow>
   snd (run_singularity_command e p c bd cb) =
     start_log e p c @
     [Log DEBUG ''Constructed singularity bindings: None'',
      Execute (fs_resolve e p) (split c)
        (Some (remdups (map (fs_resolve e) (as_collection bd))))] @
     concat (map (\<lambda>l. Log INFO (rstrip l) # (if callback_true cb then [Callback l] else []))
       (if callback_true cb
        then takeWhile (\<lambda>l. invoke cb l = None) (emitted_lines e p c bd) @
             take 1 (dropWhile (\<lambda>l. invoke cb l = None) (emitted_lines e p c bd))
        else emitted_lines e p c bd)) @
     (case fst (run_singularity_command e p c bd cb) of
        Inl (CalledProcessError x) \<Rightarrow> failure_log e c x | _ \<Rightarrow> [])"
proof -
  assume ex: "fs_exists e p" and tr: "truthy bd"
  show ?thesis
  proof (cases "sclient_execute e (fs_resolve e p) (split c)
                  (Some (remdups (map (fs_resolve e) (as_collection bd))))")
    case (Inl x0)
    with ex tr have "emitted_lines e p c bd = []"
      by (simp add: emitted_lines_def)
    with run_launch_raises [OF ex tr Inl, of cb] show ?thesis by simp
  next
    case (Inr out)
    obtain lines fin where out: "out = (lines, fin)" by (cases out)
    with Inr ex tr have em: "emitted_lines e p c bd = lines"
      by (simp add: emitted_lines_def)
    from Inr out have "sclient_execute e (fs_resolve e p) (split c)
        (Some (remdups (map (fs_resolve e) (as_collection bd)))) = Inr (lines, fin)"
      by simp
    from run_reached [OF ex tr this, of cb] show ?thesis
      by (simp only: em consume_trace [of cb lines fin] snd_conv fst_conv)
  qed
qed

section \<open>Properties\<close>

subsection \<open>The image test\<close>

text \<open>
  C2. When the image does not exist, the call raises \<^verbatim>\<open>FileNotFoundError\<close> and nothing
  else has happened: no message was logged, the runtime was not called (so no child process
  and no second attempt), and the callback was not called.
\<close>

theorem missing_image_fails_first:
  "\<not> fs_exists e image_path \<Longrightarrow>
   run_singularity_command e image_path command bd cb =
     (Inl (FileNotFoundError (''The singularity container '' @ image_path @ '' was not found. '')), [])"
  by (simp add: run_singularity_command_def)

theorem missing_image_fails_first_witness:
  "\<not> fs_exists demo_env ''missing.sif'' \<and>
   run_singularity_command demo_env ''missing.sif'' ''echo hello'' (Paths [''/data''])
       (Some quiet_callback) =
     (Inl (FileNotFoundError ''The singularity container missing.sif was not found. ''), [])"
  using missing_image_fails_first [of demo_env "''missing.sif''" "''echo hello''"
      "Paths [''/data'']" "Some quiet_callback"]
  by (simp add: demo_env_def)

subsection \<open>The bind list\<close>

text \<open>
  C1. With an existing image and \<^verbatim>\<open>bind_dirs\<close> absent or empty, the call does not
  reach the runtime: line 39 initialises \<^verbatim>\<open>bind_str\<close>, not \<^verbatim>\<open>bind\<close>, so reading
  \<^verbatim>\<open>bind\<close> at line 58 raises \<^verbatim>\<open>UnboundLocalError\<close>, which the handler does not
  catch. The trace holds the two start messages and nothing else: no call of
  \<^verbatim>\<open>sclient.execute\<close> and no call of the callback. This is what the code does; the
  specification expects the command to be launched with no bind argument.
\<close>

theorem no_binds_raises_unbound_local:
  "fs_exists e p \<Longrightarrow> \<not> truthy bd \<Longrightarrow>
   run_singularity_command e p c bd cb =
     (Inl (UnboundLocalError ''bind''),
      [Log INFO (''Running '' @ c @ '' in '' @ p),
       Log INFO (''Attempting to run singularity command on '' @ gethostname e)])"
  by (simp add: run_unbound start_log_def)

theorem no_binds_raises_unbound_local_witness:
  "fs_exists demo_env ''test.sif'' \<and> \<not> truthy NoBinds \<and>
   run_singularity_command demo_env ''test.sif'' ''echo hello'' NoBinds (Some quiet_callback) =
     (Inl (UnboundLocalError ''bind''),
      [Log INFO ''Running echo hello in test.sif'',
       Log INFO ''Attempting to run singularity command on node1''])"
  using no_binds_raises_unbound_local [of demo_env "''test.sif''" NoBinds "''echo hello''"
      "Some quiet_callback"]
  by (simp add: demo_env_def)

text \<open>
  C3. With an existing image and a non-empty collection of bind directories, the runtime is
  called once, and its bind list holds the canonical form of every given directory, each
  exactly once: directories that are given twice, or that resolve to the same place, leave
  one entry. Only the set of entries is stated, not their order.
\<close>

theorem bind_list_canonical_once:
  "fs_exists e p \<Longrightarrow> ps \<noteq> [] \<Longrightarrow>
   \<exists>bs. filter is_Execute (snd (run_singularity_command e p c (Paths ps) cb)) =
          [Execute (fs_resolve e p) (split c) (Some bs)]
        \<and> distinct bs \<and> set bs = fs_resolve e ` set ps"
  by (simp add: run_executes_once)

theorem bind_list_canonical_once_witness:
  "fs_exists demo_env ''test.sif'' \<and> [''/data'', ''/link'', ''/data''] \<noteq> [] \<and>
   (\<exists>bs. filter is_Execute (snd (run_singularity_command demo_env ''test.sif'' ''false''
             (Paths [''/data'', ''/link'', ''/data'']) None)) =
          [Execute ''/work/test.sif'' [''false''] (Some bs)]
        \<and> distinct bs \<and> set bs = {''/data''})"
  using bind_list_canonical_once [of demo_env "''test.sif''" "[''/data'', ''/link'', ''/data'']"
      "''false''" None]
  by (simp add: demo_env_def demo_resolve_def split_def isspace_def)

text \<open>
  C9. A bare path as \<^verbatim>\<open>bind_dirs\<close> gives the same outcome and the same trace as the
  list holding only that path; with an existing image the runtime is called with the
  one-entry bind list of its canonical form.
\<close>

theorem bare_path_is_singleton:
  "run_singularity_command e p c (OnePath q) cb = run_singularity_command e p c (Paths [q]) cb
   \<and> (fs_exists e p \<longrightarrow>
        filter is_Execute (snd (run_singularity_command e p c (OnePath q) cb)) =
          [Execute (fs_resolve e p) (split c) (Some [fs_resolve e q])])"
proof -
  have "run_singularity_command e p c (OnePath q) cb =
      run_singularity_command e p c (Paths [q]) cb"
    by (simp add: run_singularity_command_def construct_bind_def)
  moreover have "fs_exists e p \<longrightarrow>
      filter is_Execute (snd (run_singularity_command e p c (OnePath q) cb)) =
        [Execute (fs_resolve e p) (split c) (Some [fs_resolve e q])]"
    using run_executes_once [of e p "OnePath q" c cb] by simp
  ultimately show ?thesis by simp
qed

theorem bare_path_is_singleton_witness:
  "run_singularity_command demo_env ''test.sif'' ''echo hello'' (OnePath ''/link'') None =
     run_singularity_command demo_env ''test.sif'' ''echo hello'' (Paths [''/link'']) None
   \<and> filter is_Execute
         (snd (run_singularity_command demo_env ''test.sif'' ''echo hello''
                 (OnePath ''/link'') None)) =
       [Execute ''/work/test.sif'' [''echo'', ''hello''] (Some [''/data''])]"
  using bare_path_is_singleton [of demo_env "''test.sif''" "''echo hello''" "''/link''" None]
  by (simp add: run_singularity_command_def construct_bind_def try_body_def resolve_strict_def
        demo_env_def demo_resolve_def demo_execute_def split_def isspace_def start_log_def
        rstrip_def)

text \<open>
  C8. With an existing image and bind directories given, exactly one message is logged at
  debug level, and it is \<^verbatim>\<open>Constructed singularity bindings: None\<close> whatever the
  directories are: line 52 prints \<^verbatim>\<open>bind_str\<close>, which is still \<^verbatim>\<open>None\<close>, and not
  the list \<^verbatim>\<open>bind\<close> that is passed to the runtime. This is what the code does;
  the specification expects the message to hold the bind list.
\<close>

theorem debug_message_prints_none:
  "fs_exists e p \<Longrightarrow> truthy bd \<Longrightarrow>
   messages_at DEBUG (snd (run_singularity_command e p c bd cb)) =
     [''Constructed singularity bindings: None'']"
  by (simp add: run_bound Let_def messages_at_append start_log_def failure_log_def
        try_body_messages_debug split: sum.splits exn.splits)

theorem debug_message_prints_none_witness:
  "fs_exists demo_env ''test.sif'' \<and> truthy (Paths [''/data'']) \<and>
   messages_at DEBUG (snd (run_singularity_command demo_env ''test.sif'' ''echo hello''
       (Paths [''/data'']) None)) = [''Constructed singularity bindings: None'']"
  using debug_message_prints_none [of demo_env "''test.sif''" "Paths [''/data'']"
      "''echo hello''" None]
  by (simp add: demo_env_def)

subsection \<open>The command\<close>



text \<open>
  C10. The command is not checked. For a command made of whitespace only (the empty command
  included) and an existing image, the argument vector is empty; with bind directories given
  the runtime is called with that empty vector, and without them the call ends in the
  \<^verbatim>\<open>UnboundLocalError\<close> of C1 before the runtime is reached, where the
  specification expects the empty vector to be handed over as well.
\<close>

theorem blank_command_not_validated:
  "\<forall>ch\<in>set c. isspace ch \<Longrightarrow> fs_exists e p \<Longrightarrow>
   split c = []
   \<and> (truthy bd \<longrightarrow>
        filter is_Execute (snd (run_singularity_command e p c bd cb)) =
          [Execute (fs_resolve e p) []
             (Some (remdups (map (fs_resolve e) (as_collection bd))))])
   \<and> (\<not> truthy bd \<longrightarrow>
        run_singularity_command e p c bd cb =
          (Inl (UnboundLocalError ''bind''), start_log e p c))"
proof -
  assume blank: "\<forall>ch\<in>set c. isspace ch" and ex: "fs_exists e p"
  from blank have "split c = []"
    by (simp add: split_def split_from_blank)
  with ex show ?thesis
    using run_executes_once [of e p bd c cb] run_unbound [of e p bd c cb] by simp
qed

theorem blank_command_not_validated_witness:
  "split [CHR '' '', CHR 0x09] = []
   \<and> run_singularity_command demo_env ''test.sif'' [CHR '' '', CHR 0x09] NoBinds None =
       (Inl (UnboundLocalError ''bind''),
        [Log INFO (''Running '' @ [CHR '' '', CHR 0x09] @ '' in test.sif''),
         Log INFO ''Attempting to run singularity command on node1''])"
  using blank_command_not_validated [of "[CHR '' '', CHR 0x09]" demo_env "''test.sif''"
      NoBinds None]
  by (simp add: demo_env_def isspace_def start_log_def)

subsection \<open>The output lines and the callback\<close>

text \<open>
  C4, as stated, does not hold: the callback is called after the line is logged, not
  before. For \<^verbatim>\<open>cat notes.txt\<close> the trace has each message in front of the call for
  its line, no call for the first line comes before the message of that line, and the
  message of the first line has lost its two blanks together with the line feed.
\<close>

theorem callback_before_log_counterexample:
  "snd (run_singularity_command demo_env ''test.sif'' ''cat notes.txt'' (Paths [''/data''])
          (Some quiet_callback)) =
     [Log INFO ''Running cat notes.txt in test.sif'',
      Log INFO ''Attempting to run singularity command on node1'',
      Log DEBUG ''Constructed singularity bindings: None'',
      Execute ''/work/test.sif'' [''cat'', ''notes.txt''] (Some [''/data'']),
      Log INFO ''first'', Callback (''first  '' @ [CHR 0x0A]),
      Log INFO ''second'', Callback (''second'' @ [CHR 0x0A])]
   \<and> Callback (''first  '' @ [CHR 0x0A])
       \<notin> set (takeWhile (\<lambda>ev. ev \<noteq> Log INFO ''first'')
                (snd (run_singularity_command demo_env ''test.sif'' ''cat notes.txt''
                        (Paths [''/data'']) (Some quiet_callback))))"
  by (simp add: run_singularity_command_def construct_bind_def try_body_def resolve_strict_def
        demo_env_def demo_resolve_def demo_execute_def split_def isspace_def start_log_def
        quiet_callback_def rstrip_def)

text \<open>
  C4, amended. With an existing image and bind directories given, the trace of a call is:
  the two start messages, the debug message, the call of the runtime, then for every line
  that the loop reaches, in the order of emission, the message at info level with the line
  stripped of all trailing whitespace, followed, when a callback is supplied and is true, by
  the call of the callback with the line as it came, and last the failure messages if the
  call ends in \<^verbatim>\<open>CalledProcessError\<close>. A callback that is absent or false is never
  called and every emitted line is logged. With a callback that is true the loop reaches
  every emitted line up to and including the first one on which the callback raises, so
  all of them when it never does. What the stripping leaves is the line without its
  longest whitespace suffix.
\<close>

theorem line_logged_then_callback:
  "fs_exists e p \<Longrightarrow> truthy bd \<Longrightarrow>
   snd (run_singularity_command e p c bd cb) =
     start_log e p c @
     [Log DEBUG ''Constructed singularity bindings: None'',
      Execute (fs_resolve e p) (split c)
        (Some (remdups (map (fs_resolve e) (as_collection bd))))] @
     concat (map (\<lambda>l. Log INFO (rstrip l) # (if callback_true cb then [Callback l] else []))
       (if callback_true cb
        then takeWhile (\<lambda>l. invoke cb l = None) (emitted_lines e p c bd) @
             take 1 (dropWhile (\<lambda>l. invoke cb l = None) (emitted_lines e p c bd))
        else emitted_lines e p c bd)) @
     (case fst (run_singularity_command e p c bd cb) of
        Inl (CalledProcessError x) \<Rightarrow> failure_log e c x | _ \<Rightarrow> [])
   \<and> (\<forall>l. \<exists>ws. l = rstrip l @ ws \<and> list_all isspace ws
              \<and> (rstrip l = [] \<or> \<not> isspace (last (rstrip l))))"
  using run_trace [of e p bd c cb] rstrip_spec by blast

theorem line_logged_then_callback_witness:
  "fs_exists demo_env ''test.sif'' \<and> truthy (Paths [''/data'']) \<and>
   snd (run_singularity_command demo_env ''test.sif'' ''cat notes.txt'' (Paths [''/data''])
          (Some raising_callback)) =
     [Log INFO ''Running cat notes.txt in test.sif'',
      Log INFO ''Attempting to run singularity command on node1'',
      Log DEBUG ''Constructed singularity bindings: None'',
      Execute ''/work/test.sif'' [''cat'', ''notes.txt''] (Some [''/data'']),
      Log INFO ''first'', Callback (''first  '' @ [CHR 0x0A])] \<and>
   snd (run_singularity_command demo_env ''test.sif'' ''cat notes.txt'' (Paths [''/data''])
          (Some falsy_callback)) =
     [Log INFO ''Running cat notes.txt in test.sif'',
      Log INFO ''Attempting to run singularity command on node1'',
      Log DEBUG ''Constructed singularity bindings: None'',
      Execute ''/work/test.sif'' [''cat'', ''notes.txt''] (Some [''/data'']),
      Log INFO ''first'', Log INFO ''second''] \<and>
   snd (run_singularity_command demo_env ''test.sif'' ''cat notes.txt'' (Paths [''/data''])
          None) =
     [Log INFO ''Running cat notes.txt in test.sif'',
      Log INFO ''Attempting to run singularity command on node1'',
      Log DEBUG ''Constructed singularity bindings: None'',
      Execute ''/work/test.sif'' [''cat'', ''notes.txt''] (Some [''/data'']),
      Log INFO ''first'', Log INFO ''second'']"
  using line_logged_then_callback [of demo_env "''test.sif''" "Paths [''/data'']"
      "''cat notes.txt''" "Some raising_callback"]
    line_logged_then_callback [of demo_env "''test.sif''" "Paths [''/data'']"
      "''cat notes.txt''" "Some falsy_callback"]
    line_logged_then_callback [of demo_env "''test.sif''" "Paths [''/data'']"
      "''cat notes.txt''" None]
  by (simp add: run_singularity_command_def construct_bind_def try_body_def resolve_strict_def
        demo_env_def demo_resolve_def demo_execute_def split_def isspace_def start_log_def
        raising_callback_def falsy_callback_def rstrip_def emitted_lines_def)

text \<open>
  C7, as stated, does not hold: a callback that raises changes the outcome. The same call
  succeeds without a callback and ends in the callback's exception with it.
\<close>

theorem raising_callback_changes_outcome:
  "fst (run_singularity_command demo_env ''test.sif'' ''echo hello'' (Paths [''/data''])
          (Some raising_callback)) = Inl (OtherException ''ValueError'')
   \<and> fst (run_singularity_command demo_env ''test.sif'' ''echo hello'' (Paths [''/data''])
          None) = Inr ()"
  by (simp add: run_singularity_command_def construct_bind_def try_body_def resolve_strict_def
        demo_env_def demo_resolve_def demo_execute_def split_def isspace_def Let_def
        raising_callback_def)

text \<open>
  C7, amended. A supplied callback that, if it is true, returns normally on every line the
  child emits is an observer: the call ends as it does without a callback, and the trace
  without the callback's calls is the trace of the call without a callback. A callback that
  is true is called exactly once for every emitted line, in the order of emission; one that
  is false is never called, since line 67 tests its truth value.
\<close>

theorem returning_callback_is_observer:
  "truth_value f \<longrightarrow> (\<forall>l\<in>set (emitted_lines e p c bd). call f l = None) \<Longrightarrow>
   fst (run_singularity_command e p c bd (Some f)) =
     fst (run_singularity_command e p c bd None)
   \<and> filter (\<lambda>ev. \<not> is_Callback ev) (snd (run_singularity_command e p c bd (Some f))) =
       snd (run_singularity_command e p c bd None)
   \<and> filter is_Callback (snd (run_singularity_command e p c bd (Some f))) =
       (if truth_value f then map Callback (emitted_lines e p c bd) else [])"
proof -
  assume ok: "truth_value f \<longrightarrow> (\<forall>l\<in>set (emitted_lines e p c bd). call f l = None)"
  show ?thesis
  proof (cases "fs_exists e p \<and> truthy bd")
    case False
    then have "emitted_lines e p c bd = []"
      by (auto simp: emitted_lines_def)
    moreover have "filter is_Callback (snd (run_singularity_command e p c bd None)) = []"
      using run_not_reached_trace [OF False, of c None]
      by (auto simp: start_log_no_callback)
    moreover
    have "filter (\<lambda>ev. \<not> is_Callback ev) (snd (run_singularity_command e p c bd None)) =
        snd (run_singularity_command e p c bd None)"
      using run_not_reached_trace [OF False, of c None]
      by (auto simp: start_log_no_callback)
    ultimately show ?thesis
      using run_not_reached [OF False, of c "Some f"] by simp
  next
    case True
    then have ex: "fs_exists e p" and tr: "truthy bd" by simp_all
    show ?thesis
    proof (cases "sclient_execute e (fs_resolve e p) (split c)
                    (Some (remdups (map (fs_resolve e) (as_collection bd))))")
      case (Inl x0)
      with ex tr have "emitted_lines e p c bd = []"
        by (simp add: emitted_lines_def)
      then show ?thesis
        using run_launch_raises [OF ex tr Inl, of "Some f"]
          run_launch_raises [OF ex tr Inl, of None]
        by (simp add: start_log_no_callback failure_log_no_callback
              split: exn.splits)
    next
      case (Inr out)
      obtain lines fin where out: "out = (lines, fin)" by (cases out)
      with Inr ex tr have em: "emitted_lines e p c bd = lines"
        by (simp add: emitted_lines_def)
      from Inr out have rt: "sclient_execute e (fs_resolve e p) (split c)
          (Some (remdups (map (fs_resolve e) (as_collection bd)))) = Inr (lines, fin)"
        by simp
      have none: "consume None lines fin =
          ((case fin of None \<Rightarrow> Inr () | Some x \<Rightarrow> Inl x),
           map (\<lambda>l. Log INFO (rstrip l)) lines)"
        by (rule consume_no_callback) simp
      have not_cb: "filter (\<lambda>ev. \<not> is_Callback ev) (map (\<lambda>l. Log INFO (rstrip l)) lines) =
          map (\<lambda>l. Log INFO (rstrip l)) lines"
        by (induction lines) simp_all
      have no_cb: "filter is_Callback (map (\<lambda>l. Log INFO (rstrip l)) lines) = []"
        by (induction lines) simp_all
      show ?thesis
      proof (cases "truth_value f")
        case False
        then have cf: "consume (Some f) lines fin =
            ((case fin of None \<Rightarrow> Inr () | Some x \<Rightarrow> Inl x),
             map (\<lambda>l. Log INFO (rstrip l)) lines)"
          by (intro consume_no_callback) simp
        show ?thesis
          using run_reached [OF ex tr rt, of "Some f"] run_reached [OF ex tr rt, of None] False
          by (simp add: em cf none not_cb no_cb start_log_no_callback failure_log_no_callback
                split: option.splits exn.splits)
      next
        case yes: True
        with ok em have "\<forall>l\<in>set lines. invoke (Some f) l = None" by simp
        with yes have cf: "consume (Some f) lines fin =
            ((case fin of None \<Rightarrow> Inr () | Some x \<Rightarrow> Inl x),
             concat (map (\<lambda>l. [Log INFO (rstrip l), Callback l]) lines))"
          by (intro consume_callback_returns) simp_all
        show ?thesis
          using run_reached [OF ex tr rt, of "Some f"] run_reached [OF ex tr rt, of None] yes
          by (simp add: em cf none start_log_no_callback failure_log_no_callback
                filter_callback_pairs filter_not_callback_pairs
                split: option.splits exn.splits)
      qed
    qed
  qed
qed

theorem returning_callback_is_observer_witness:
  "fst (run_singularity_command demo_env ''test.sif'' ''cat notes.txt'' (Paths [''/data''])
          (Some quiet_callback)) = Inr ()
   \<and> fst (run_singularity_command demo_env ''test.sif'' ''cat notes.txt'' (Paths [''/data''])
          None) = Inr ()
   \<and> filter is_Callback
         (snd (run_singularity_command demo_env ''test.sif'' ''cat notes.txt''
                 (Paths [''/data'']) (Some quiet_callback))) =
       [Callback (''first  '' @ [CHR 0x0A]), Callback (''second'' @ [CHR 0x0A])]
   \<and> fst (run_singularity_command demo_env ''test.sif'' ''cat notes.txt'' (Paths [''/data''])
          (Some falsy_callback)) = Inr ()
   \<and> filter is_Callback
         (snd (run_singularity_command demo_env ''test.sif'' ''cat notes.txt''
                 (Paths [''/data'']) (Some falsy_callback))) = []"
  using returning_callback_is_observer [of quiet_callback demo_env "''test.sif''"
      "''cat notes.txt''" "Paths [''/data'']"]
    returning_callback_is_observer [of falsy_callback demo_env "''test.sif''"
      "''cat notes.txt''" "Paths [''/data'']"]
  by (simp add: run_singularity_command_def construct_bind_def try_body_def resolve_strict_def
        demo_env_def demo_resolve_def demo_execute_def split_def isspace_def Let_def
        quiet_callback_def falsy_callback_def emitted_lines_def)

subsection \<open>A failing command\<close>

text \<open>
  C5, as stated, does not hold: the exception that leaves the function is the one the
  runtime raised, and the function puts nothing into it. Here the runtime raises
  \<^verbatim>\<open>CalledProcessError(1, cmd)\<close> with the command line it ran; the error that reaches
  the caller holds that argument list, not the command string \<^verbatim>\<open>false\<close>, and holds no
  standard-output or standard-error text.
\<close>

theorem error_carries_command_counterexample:
  "fst (run_singularity_command demo_env ''test.sif'' ''false'' (Paths [''/data'', ''/data''])
          None) =
     Inl (CalledProcessError
            (CPE 1 (CmdArgv [''singularity'', ''exec'', ''--bind'', ''/data'',
                             ''/work/test.sif'', ''false'']) None None))"
  by (simp add: run_singularity_command_def construct_bind_def try_body_def resolve_strict_def
        demo_env_def demo_resolve_def demo_execute_def split_def isspace_def Let_def)

text \<open>
  C5, amended. When the child fails, that is when the generator of the runtime ends by
  raising \<^verbatim>\<open>CalledProcessError\<close> (and the callback, if one is called, has returned on
  every line),
  the call ends in that same exception, unchanged, and the last four entries of the trace
  are the messages at error level: the command string, the \<^verbatim>\<open>stdout\<close> and the
  \<^verbatim>\<open>stderr\<close> of the exception, and the exception itself. Nothing is logged at error
  level before them.
\<close>

theorem failure_logged_then_reraised:
  "fs_exists e p \<Longrightarrow> truthy bd \<Longrightarrow>
   sclient_execute e (fs_resolve e p) (split c)
     (Some (remdups (map (fs_resolve e) (as_collection bd)))) =
       Inr (lines, Some (CalledProcessError x)) \<Longrightarrow>
   callback_true cb \<longrightarrow> (\<forall>l\<in>set lines. invoke cb l = None) \<Longrightarrow>
   \<exists>t. run_singularity_command e p c bd cb =
         (Inl (CalledProcessError x),
          t @ [Log ERROR (''Failed to run command: '' @ c),
               Log ERROR (''Stdout: '' @ str_opt (stdout x)),
               Log ERROR (''Stderr: '' @ str_opt (stderr x)),
               Log ERROR (''e='' @ py_repr e x)])
       \<and> messages_at ERROR t = []"
proof -
  assume ex: "fs_exists e p" and tr: "truthy bd"
    and rt: "sclient_execute e (fs_resolve e p) (split c)
       (Some (remdups (map (fs_resolve e) (as_collection bd)))) =
         Inr (lines, Some (CalledProcessError x))"
    and cb: "callback_true cb \<longrightarrow> (\<forall>l\<in>set lines. invoke cb l = None)"
  let ?t = "start_log e p c @
      [Log DEBUG ''Constructed singularity bindings: None'',
       Execute (fs_resolve e p) (split c)
         (Some (remdups (map (fs_resolve e) (as_collection bd))))] @
      snd (consume cb lines (Some (CalledProcessError x)))"
  from consume_returns [OF cb]
  have res: "fst (consume cb lines (Some (CalledProcessError x))) = Inl (CalledProcessError x)"
    by simp
  have "run_singularity_command e p c bd cb =
      (Inl (CalledProcessError x), ?t @ failure_log e c x)"
    using run_reached [OF ex tr rt, of cb] by (simp add: res)
  moreover have "messages_at ERROR ?t = []"
    by (simp add: messages_at_append start_log_def consume_messages_error)
  ultimately show ?thesis
    unfolding failure_log_def by blast
qed

theorem failure_logged_then_reraised_witness:
  "fs_exists demo_env ''test.sif'' \<and> truthy (Paths [''/data'', ''/data'']) \<and>
   (\<exists>t. run_singularity_command demo_env ''test.sif'' ''false'' (Paths [''/data'', ''/data''])
           (Some quiet_callback) =
         (Inl (CalledProcessError
            (CPE 1 (CmdArgv [''singularity'', ''exec'', ''--bind'', ''/data'',
                             ''/work/test.sif'', ''false'']) None None)),
          t @ [Log ERROR ''Failed to run command: false'',
               Log ERROR ''Stdout: None'',
               Log ERROR ''Stderr: None'',
               Log ERROR ''e=CalledProcessError''])
       \<and> messages_at ERROR t = [])"
  using failure_logged_then_reraised [of demo_env "''test.sif''" "Paths [''/data'', ''/data'']"
      "''false''" "[]"
      "CPE 1 (CmdArgv [''singularity'', ''exec'', ''--bind'', ''/data'',
                       ''/work/test.sif'', ''false'']) None None"
      "Some quiet_callback"]
  by (simp add: demo_env_def demo_resolve_def demo_execute_def split_def isspace_def)

end
